theory Spec2Isabelle
  imports Main "HOL-Library.Product_Lexorder"
begin

section \<open>The moderation API of \<open>app/api/internal_v1.py\<close>\<close>

text \<open>
  The module is a FastAPI sub-application: seven routes over an ORM session. The
  handlers are embedded as functions on an explicit session state; an exception is a
  value \<open>Inl e\<close> of a sum type. The schema classes, the helpers of
  \<open>app.core.helpers\<close> and the dependencies of \<open>app.core.dependencies\<close> are imported
  by the module and defined elsewhere. What the handlers need of them is a parameter
  of the model (a type variable or a function argument); the role hierarchy and the
  two role dependencies are modelled from the specification and marked as such.
\<close>

subsection \<open>Rows\<close>

text \<open>
  \<open>Image\<close> is the table class, \<open>ReviewMetadata\<close> the request and response model.
  Their fields are the ones the handlers read and write. The type of the primary key
  \<open>'i\<close> and the enumeration \<open>ImageReviewStatus\<close> (\<open>'s\<close>) are declared outside the
  module and stay type variables. \<open>created_at\<close> is a timestamp, \<open>Image.created_by\<close>
  a user id and \<open>ReviewMetadata.created_by\<close> a team number. The field \<open>id\<close> is
  written \<open>id'\<close>.
\<close>

record ('i, 's) Image =
  id' :: 'i
  created_at :: int
  created_by :: int
  batch :: int
  annotations :: string
  review_status :: 's

record ('i, 's) ReviewMetadata =
  id' :: 'i
  annotations :: string
  created_at :: int
  created_by :: int
  batch :: int
  review_status :: 's

text \<open>
  Modelled from the spec: the enumeration \<open>UserRole\<close> of \<open>app.models.models\<close> is not
  part of the module, which uses its members \<open>MODERATOR\<close> and \<open>ADMIN\<close>. The
  specification names moderators and admins and calls the role comparison
  hierarchical; \<open>USER\<close> stands for the role below a moderator.
\<close>

datatype UserRole = USER | MODERATOR | ADMIN

text \<open>
  Modelled from the spec: the rank of a role in the hierarchy, which the missing
  role dependencies compare. Admins rank above moderators, moderators above users.
\<close>

fun level :: "UserRole \<Rightarrow> nat" where
  "level USER = 0"
| "level MODERATOR = 1"
| "level ADMIN = 2"

record User =
  id' :: int
  username :: string
  team_number :: int
  role :: UserRole

subsection \<open>Exceptions\<close>

text \<open>
  What the database raises when it turns a statement of a flush down: a constraint
  is violated (a primary key or unique value that is already stored, a missing
  referenced row), or a value does not fit its column (out of range for the column,
  or too large for the driver to bind).
\<close>

datatype db_error = IntegrityError | DataError | OverflowError

text \<open>
  \<open>NoResultFound\<close> and \<open>MultipleResultsFound\<close> are what \<open>Result.one()\<close> raises;
  \<open>LookupError\<close>, \<open>AssertionError\<close> and \<open>HTTPException\<close> are raised by the handlers
  themselves. \<open>Raised e\<close> is an exception \<open>e\<close> coming out of a helper of
  \<open>app.core.helpers\<close>, \<open>CommitRaised e\<close> the database error \<open>e\<close> coming out of
  \<open>session.commit()\<close>. \<open>InsufficientRole\<close> and \<open>RateLimitExceeded\<close> are the
  rejections of the two kinds of dependency.
\<close>

datatype 'e error =
    NoResultFound
  | MultipleResultsFound
  | LookupError
  | AssertionError
  | HTTPException nat string
  | Raised 'e
  | CommitRaised db_error
  | InsufficientRole
  | RateLimitExceeded

definition HTTP_404_NOT_FOUND :: nat where
  "HTTP_404_NOT_FOUND = 404"

subsection \<open>The session\<close>

text \<open>
  The stored rows of the four tables. The category classes \<open>LabelCategory\<close> (\<open>'c\<close>)
  and \<open>LabelSuperCategory\<close> (\<open>'sc\<close>) are opaque: the module only passes them on.
\<close>

record ('i, 's, 'c, 'sc) Tables =
  images :: "('i, 's) Image list"
  users :: "User list"
  label_categories :: "'c list"
  label_super_categories :: "'sc list"

text \<open>
  The verdict of the database on the statements the module makes it execute: the
  UPDATE of an image row to new values, and the INSERT of a category or super
  category row, each against the rows stored at that moment. \<open>None\<close> accepts the
  statement, \<open>Some e\<close> raises \<open>e\<close>. The columns and constraints that decide it are
  declared with the schema classes outside the module, so the verdict is a
  parameter, carried by the session that is bound to the database.
\<close>

record ('i, 's, 'c, 'sc) Schema =
  image_update :: "('i, 's, 'c, 'sc) Tables \<Rightarrow> ('i, 's) Image \<Rightarrow> db_error option"
  category_insert :: "('i, 's, 'c, 'sc) Tables \<Rightarrow> 'c \<Rightarrow> db_error option"
  super_category_insert :: "('i, 's, 'c, 'sc) Tables \<Rightarrow> 'sc \<Rightarrow> db_error option"

datatype ('i, 's, 'c, 'sc) entity =
    ImageObj "('i, 's) Image"
  | UserObj User
  | LabelCategoryObj 'c
  | LabelSuperCategoryObj 'sc

datatype ('i, 's, 'c, 'sc) change =
    Add "('i, 's, 'c, 'sc) entity"
  | Delete "('i, 's, 'c, 'sc) entity"

text \<open>
  A session holds the committed rows of the four tables, the changes registered with
  it and not yet committed, the number of commits it has made, and the schema of the
  database it is bound to.
\<close>

record ('i, 's, 'c, 'sc) Session = "('i, 's, 'c, 'sc) Tables" +
  pending :: "('i, 's, 'c, 'sc) change list"
  commits :: nat
  schema :: "('i, 's, 'c, 'sc) Schema"

definition stored :: "('i, 's, 'c, 'sc) Session \<Rightarrow> ('i, 's, 'c, 'sc) Tables" where
  "stored session =
     \<lparr>images = images session, users = users session,
      label_categories = label_categories session,
      label_super_categories = label_super_categories session\<rparr>"

text \<open>\<open>session.get(Image, pk)\<close>: the row with that primary key, or \<open>None\<close>.\<close>

definition session_get :: "('i, 's, 'c, 'sc) Session \<Rightarrow> 'i \<Rightarrow> ('i, 's) Image option" where
  "session_get session pk = find (\<lambda>r. Image.id' r = pk) (images session)"

definition session_add ::
  "('i, 's, 'c, 'sc) entity \<Rightarrow> ('i, 's, 'c, 'sc) Session \<Rightarrow> ('i, 's, 'c, 'sc) Session" where
  "session_add obj session = session\<lparr>pending := pending session @ [Add obj]\<rparr>"

definition session_delete ::
  "('i, 's, 'c, 'sc) entity \<Rightarrow> ('i, 's, 'c, 'sc) Session \<Rightarrow> ('i, 's, 'c, 'sc) Session" where
  "session_delete obj session = session\<lparr>pending := pending session @ [Delete obj]\<rparr>"

text \<open>
  Flushing one change. The image and user objects that reach \<open>session.add\<close> in this
  module were loaded through the session, so they are persistent and the flush is an
  UPDATE of the row with their primary key; the category objects come from the
  request body, so the flush is an INSERT. The UPDATE of an image and the two
  INSERTs raise what the database's verdict says. The module changes a user only in
  its role, to a member of the enumeration, and deletes only images; these
  statements raise nothing here.
\<close>

fun flush ::
  "('i, 's, 'c, 'sc) change \<Rightarrow> ('i, 's, 'c, 'sc) Session \<Rightarrow> db_error + ('i, 's, 'c, 'sc) Session" where
  "flush (Add (ImageObj img)) session =
     (case image_update (schema session) (stored session) img of
        Some e \<Rightarrow> Inl e
      | None \<Rightarrow>
          Inr (session\<lparr>images :=
                 map (\<lambda>r. if Image.id' r = Image.id' img then img else r) (images session)\<rparr>))"
| "flush (Add (UserObj user)) session =
     Inr (session\<lparr>users :=
            map (\<lambda>r. if User.id' r = User.id' user then user else r) (users session)\<rparr>)"
| "flush (Add (LabelCategoryObj category)) session =
     (case category_insert (schema session) (stored session) category of
        Some e \<Rightarrow> Inl e
      | None \<Rightarrow> Inr (session\<lparr>label_categories := label_categories session @ [category]\<rparr>))"
| "flush (Add (LabelSuperCategoryObj category)) session =
     (case super_category_insert (schema session) (stored session) category of
        Some e \<Rightarrow> Inl e
      | None \<Rightarrow>
          Inr (session\<lparr>label_super_categories := label_super_categories session @ [category]\<rparr>))"
| "flush (Delete (ImageObj img)) session =
     Inr (session\<lparr>images := filter (\<lambda>r. Image.id' r \<noteq> Image.id' img) (images session)\<rparr>)"
| "flush (Delete (UserObj user)) session =
     Inr (session\<lparr>users := filter (\<lambda>r. User.id' r \<noteq> User.id' user) (users session)\<rparr>)"
| "flush (Delete (LabelCategoryObj category)) session =
     Inr (session\<lparr>label_categories := removeAll category (label_categories session)\<rparr>)"
| "flush (Delete (LabelSuperCategoryObj category)) session =
     Inr (session\<lparr>label_super_categories := removeAll category (label_super_categories session)\<rparr>)"

text \<open>The pending changes in order; the first statement that raises ends the flush.\<close>

fun flush_all ::
  "('i, 's, 'c, 'sc) change list \<Rightarrow> ('i, 's, 'c, 'sc) Session \<Rightarrow>
   db_error + ('i, 's, 'c, 'sc) Session" where
  "flush_all [] session = Inr session"
| "flush_all (c # cs) session =
     (case flush c session of
        Inl e \<Rightarrow> Inl e
      | Inr session' \<Rightarrow> flush_all cs session')"

text \<open>
  \<open>session.commit()\<close>: flush the pending changes, then commit. When a statement
  raises, the transaction is rolled back and the exception leaves \<open>commit\<close>:
  nothing is written.
\<close>

definition session_commit ::
  "('i, 's, 'c, 'sc) Session \<Rightarrow> db_error + ('i, 's, 'c, 'sc) Session" where
  "session_commit session =
     (case flush_all (pending session) session of
        Inl e \<Rightarrow> Inl e
      | Inr session' \<Rightarrow> Inr (session'\<lparr>pending := [], commits := Suc (commits session)\<rparr>))"

text \<open>
  A handler that ends in \<open>session.commit()\<close>: it returns \<open>None\<close> on the committed
  session, or the database error of the commit leaves it as an exception, on the
  session as the request found it.
\<close>

definition committed ::
  "('i, 's, 'c, 'sc) Session \<Rightarrow> db_error + ('i, 's, 'c, 'sc) Session \<Rightarrow>
   ('e error + unit) \<times> ('i, 's, 'c, 'sc) Session" where
  "committed session outcome =
     (case outcome of
        Inl e \<Rightarrow> (Inl (CommitRaised e), session)
      | Inr session' \<Rightarrow> (Inr (), session'))"

subsection \<open>Statements\<close>

text \<open>
  A statement maps the rows of the table to the rows of the result.
  \<open>ORDER BY created_at ASC\<close> fixes the order of rows with different keys only; the
  order of rows with equal keys is the engine's, and goes with the stored rows. It
  is the parameter \<open>tie\<close>, a rank the engine gives each row.
\<close>

type_synonym 'a statement = "'a list \<Rightarrow> 'a list"

definition select :: "'a statement" where
  "select = (\<lambda>rows. rows)"

definition where_clause :: "('a \<Rightarrow> bool) \<Rightarrow> 'a statement \<Rightarrow> 'a statement" where
  "where_clause p stmt = (\<lambda>rows. filter p (stmt rows))"

definition order_by_asc :: "('a \<Rightarrow> nat) \<Rightarrow> ('a \<Rightarrow> int) \<Rightarrow> 'a statement \<Rightarrow> 'a statement" where
  "order_by_asc tie key stmt = (\<lambda>rows. sort_key (\<lambda>r. (key r, tie r)) (stmt rows))"

definition limit :: "nat \<Rightarrow> 'a statement \<Rightarrow> 'a statement" where
  "limit n stmt = (\<lambda>rows. take n (stmt rows))"

definition session_exec ::
  "('i, 's) Image statement \<Rightarrow> ('i, 's, 'c, 'sc) Session \<Rightarrow> ('i, 's) Image list" where
  "session_exec stmt session = stmt (images session)"

text \<open>\<open>Result.one()\<close>: exactly one row, or an exception.\<close>

fun one' :: "'a list \<Rightarrow> 'e error + 'a" where
  "one' [] = Inl NoResultFound"
| "one' [x] = Inr x"
| "one' (x # y # rest) = Inl MultipleResultsFound"

text \<open>
  \<open>not x\<close> for a variable that holds \<open>None\<close> or a model instance: the model classes
  define neither \<open>__bool__\<close> nor \<open>__len__\<close>, so only \<open>None\<close> is falsy.
\<close>

definition py_not :: "'a option \<Rightarrow> bool" where
  "py_not x = (case x of None \<Rightarrow> True | Some obj \<Rightarrow> False)"

subsection \<open>\<open>GET /review-image\<close>\<close>

text \<open>
  \<open>truthy\<close> is the truth value Python gives a primary key (the operand of
  \<open>assert image.id\<close>), and \<open>get_team_number_from_id\<close> is the helper of that name,
  which returns a team number or raises.
\<close>

definition get_image_for_review ::
  "('i \<Rightarrow> bool) \<Rightarrow> (int \<Rightarrow> ('i, 's, 'c, 'sc) Session \<Rightarrow> 'e + int) \<Rightarrow> (('i, 's) Image \<Rightarrow> nat) \<Rightarrow>
   User \<Rightarrow> ('i, 's, 'c, 'sc) Session \<Rightarrow> 's \<Rightarrow> 'e error + ('i, 's) ReviewMetadata" where
  "get_image_for_review truthy get_team_number_from_id tie current_user session target_status =
     (let statement =
        limit 1
          (order_by_asc tie Image.created_at
            (where_clause (\<lambda>r. Image.review_status r = target_status) select))
      in case one' (session_exec statement session) of
           Inl e \<Rightarrow> Inl e
         | Inr img \<Rightarrow>
             if py_not (Some img) then Inl LookupError
             else if \<not> truthy (Image.id' img) then Inl AssertionError
             else
               (case get_team_number_from_id (Image.created_by img) session of
                  Inl e \<Rightarrow> Inl (Raised e)
                | Inr team \<Rightarrow>
                    Inr \<lparr>ReviewMetadata.id' = Image.id' img,
                         annotations = Image.annotations img,
                         created_at = Image.created_at img,
                         created_by = team,
                         batch = Image.batch img,
                         review_status = Image.review_status img\<rparr>))"

subsection \<open>\<open>PUT /review-image\<close>\<close>

text \<open>
  The result is the outcome and the session the request leaves behind. When the
  handler raises, nothing has been committed and the session is as it was.
  \<open>get_id_from_team_number\<close> is the helper of that name, which returns a user id or
  raises; it reads the session as the request found it. The assignments to the
  loaded image stay in the object until \<open>session.add\<close> and \<open>session.commit\<close>.
\<close>

definition update_image_review_status ::
  "(int \<Rightarrow> ('i, 's, 'c, 'sc) Session \<Rightarrow> 'e + int) \<Rightarrow> ('i, 's) ReviewMetadata \<Rightarrow>
   ('i, 's, 'c, 'sc) Session \<Rightarrow> User \<Rightarrow> bool \<Rightarrow> ('e error + unit) \<times> ('i, 's, 'c, 'sc) Session" where
  "update_image_review_status get_id_from_team_number new_data session current_user remove_image =
     (case session_get session (ReviewMetadata.id' new_data) of
        None \<Rightarrow> (Inl (HTTPException HTTP_404_NOT_FOUND ''Image not found''), session)
      | Some img \<Rightarrow>
          if remove_image then
            committed session (session_commit (session_delete (ImageObj img) session))
          else
            (let img = img\<lparr>Image.batch := ReviewMetadata.batch new_data\<rparr>;
                 img = img\<lparr>Image.created_at := ReviewMetadata.created_at new_data\<rparr>
             in case get_id_from_team_number (ReviewMetadata.created_by new_data) session of
                  Inl e \<Rightarrow> (Inl (Raised e), session)
                | Inr user_id \<Rightarrow>
                    (let img = img\<lparr>Image.created_by := user_id\<rparr>;
                         img = img\<lparr>Image.annotations := ReviewMetadata.annotations new_data\<rparr>;
                         img = img\<lparr>Image.review_status := ReviewMetadata.review_status new_data\<rparr>
                     in committed session
                          (session_commit (session_add (ImageObj img) session)))))"

subsection \<open>\<open>PUT /change-user-role\<close>\<close>

text \<open>
  \<open>get_user_from_username\<close> is the helper of that name: it returns the user object
  the session holds for the name, or raises.
\<close>

definition change_user_role ::
  "(string \<Rightarrow> ('i, 's, 'c, 'sc) Session \<Rightarrow> 'e + User) \<Rightarrow> string \<Rightarrow> UserRole \<Rightarrow>
   ('i, 's, 'c, 'sc) Session \<Rightarrow> User \<Rightarrow> ('e error + unit) \<times> ('i, 's, 'c, 'sc) Session" where
  "change_user_role get_user_from_username username' new_role session current_user =
     (case get_user_from_username username' session of
        Inl e \<Rightarrow> (Inl (Raised e), session)
      | Inr user \<Rightarrow>
          (let user = user\<lparr>role := new_role\<rparr>
           in committed session (session_commit (session_add (UserObj user) session))))"

subsection \<open>\<open>PUT /categories/super/create\<close> and \<open>PUT /categories/create\<close>\<close>

definition create_label_super_category ::
  "'sc \<Rightarrow> ('i, 's, 'c, 'sc) Session \<Rightarrow> User \<Rightarrow> ('e error + unit) \<times> ('i, 's, 'c, 'sc) Session" where
  "create_label_super_category category session current_user =
     committed session
       (session_commit (session_add (LabelSuperCategoryObj category) session))"

definition create_label_category ::
  "'c \<Rightarrow> ('i, 's, 'c, 'sc) Session \<Rightarrow> User \<Rightarrow> ('e error + unit) \<times> ('i, 's, 'c, 'sc) Session" where
  "create_label_category category session current_user =
     committed session (session_commit (session_add (LabelCategoryObj category) session))"

subsection \<open>Routes and their dependencies\<close>

datatype endpoint =
    GET_review_image
  | PUT_review_image
  | GET_image
  | POST_token
  | PUT_change_user_role
  | PUT_categories_super_create
  | PUT_categories_create

record RateLimiter =
  requests_limit :: nat
  time_window :: nat

text \<open>The \<open>dependencies=[Depends(RateLimiter(...))]\<close> argument of each route decorator.\<close>

fun rate_limiter :: "endpoint \<Rightarrow> RateLimiter option" where
  "rate_limiter GET_review_image = Some \<lparr>requests_limit = 5, time_window = 5\<rparr>"
| "rate_limiter PUT_review_image = Some \<lparr>requests_limit = 5, time_window = 5\<rparr>"
| "rate_limiter GET_image = Some \<lparr>requests_limit = 5, time_window = 5\<rparr>"
| "rate_limiter POST_token = Some \<lparr>requests_limit = 10, time_window = 5\<rparr>"
| "rate_limiter PUT_change_user_role = Some \<lparr>requests_limit = 5, time_window = 5\<rparr>"
| "rate_limiter PUT_categories_super_create = None"
| "rate_limiter PUT_categories_create = None"

text \<open>
  Modelled from the spec: \<open>minimum_role\<close> of \<open>app.core.dependencies\<close> is not part of
  the module. The specification gives the role checks the standard semantics of a
  hierarchical role comparison: \<open>minimum_role r\<close> lets through the users whose role
  ranks at least as high as \<open>r\<close> and hands the user on to the handler.
\<close>

definition minimum_role :: "UserRole \<Rightarrow> User \<Rightarrow> 'e error + User" where
  "minimum_role required user =
     (if level required \<le> level (role user) then Inr user else Inl InsufficientRole)"

text \<open>
  Modelled from the spec: \<open>require_role\<close> of \<open>app.core.dependencies\<close> is not part of
  the module. \<open>require_role r\<close> lets through the users whose role is \<open>r\<close> and hands
  the user on to the handler.
\<close>

definition require_role :: "UserRole \<Rightarrow> User \<Rightarrow> 'e error + User" where
  "require_role required user =
     (if role user = required then Inr user else Inl InsufficientRole)"

text \<open>The \<open>Security(...)\<close> annotation of each handler's \<open>current_user\<close> parameter.\<close>

fun security :: "endpoint \<Rightarrow> (User \<Rightarrow> 'e error + User) option" where
  "security GET_review_image = Some (minimum_role MODERATOR)"
| "security PUT_review_image = Some (minimum_role MODERATOR)"
| "security GET_image = Some (minimum_role MODERATOR)"
| "security POST_token = None"
| "security PUT_change_user_role = Some (require_role ADMIN)"
| "security PUT_categories_super_create = Some (minimum_role MODERATOR)"
| "security PUT_categories_create = Some (minimum_role MODERATOR)"

text \<open>
  A request to a route: the framework resolves the route's dependencies, the
  decorator's first, and calls the handler only when none of them raised.
  \<open>admitted\<close> is the verdict of the route's rate limiter on this request; a route
  without a rate limiter never asks for it. \<open>user\<close> is the authenticated caller and
  \<open>body\<close> the handler with its other arguments supplied. The handlers of
  \<open>GET /image/{image_id}\<close> and \<open>POST /token\<close> only call collaborators outside the
  module (the object store, the redirect response); a request to them takes their
  body as it comes.
\<close>

definition request ::
  "endpoint \<Rightarrow> bool \<Rightarrow> User \<Rightarrow> (User \<Rightarrow> 'st \<Rightarrow> ('e error + 'a) \<times> 'st) \<Rightarrow> 'st \<Rightarrow> ('e error + 'a) \<times> 'st" where
  "request ep admitted user body state =
     (if rate_limiter ep \<noteq> None \<and> \<not> admitted then (Inl RateLimitExceeded, state)
      else
        (case security ep of
           None \<Rightarrow> body user state
         | Some dependency \<Rightarrow>
             (case dependency user of
                Inl e \<Rightarrow> (Inl e, state)
              | Inr current_user \<Rightarrow> body current_user state)))"

subsection \<open>Example states\<close>

text \<open>
  Concrete inputs for the instances below: primary keys are numbers (zero is falsy),
  statuses and categories are strings, and the three helpers are plain look-ups in
  the user table that raise \<open>()\<close> when nothing is found. A category is its name,
  which is also its key: the database turns down a name that is stored. It holds
  \<open>batch\<close> in a signed 64-bit column.
\<close>

definition example_schema :: "(nat, string, string, string) Schema" where
  "example_schema =
     \<lparr>image_update =
        (\<lambda>tables img.
           if - 9223372036854775808 \<le> Image.batch img \<and> Image.batch img < 9223372036854775808
           then None else Some OverflowError),
      category_insert =
        (\<lambda>tables category.
           if category \<in> set (label_categories tables) then Some IntegrityError else None),
      super_category_insert =
        (\<lambda>tables category.
           if category \<in> set (label_super_categories tables) then Some IntegrityError else None)\<rparr>"

definition example_truthy :: "nat \<Rightarrow> bool" where
  "example_truthy pk = (pk \<noteq> 0)"

definition example_admin :: User where
  "example_admin = \<lparr>User.id' = 1, username = ''ada'', team_number = 100, role = ADMIN\<rparr>"

definition example_moderator :: User where
  "example_moderator = \<lparr>User.id' = 2, username = ''max'', team_number = 200, role = MODERATOR\<rparr>"

definition example_user :: User where
  "example_user = \<lparr>User.id' = 3, username = ''uma'', team_number = 300, role = USER\<rparr>"

definition example_session :: "(nat, string, string, string) Session" where
  "example_session =
     \<lparr>images =
        [\<lparr>Image.id' = 1, created_at = 300, created_by = 3, batch = 1,
          annotations = ''[]'', review_status = ''pending''\<rparr>,
         \<lparr>Image.id' = 2, created_at = 100, created_by = 2, batch = 1,
          annotations = ''[cone]'', review_status = ''pending''\<rparr>,
         \<lparr>Image.id' = 3, created_at = 50, created_by = 3, batch = 2,
          annotations = ''[cube]'', review_status = ''approved''\<rparr>],
      users = [example_admin, example_moderator, example_user],
      label_categories = [''cone''],
      label_super_categories = [''game piece''],
      pending = [],
      commits = 0,
      schema = example_schema\<rparr>"

definition example_tied_session :: "(nat, string, string, string) Session" where
  "example_tied_session =
     \<lparr>images =
        [\<lparr>Image.id' = 1, created_at = 100, created_by = 3, batch = 1,
          annotations = ''[]'', review_status = ''pending''\<rparr>,
         \<lparr>Image.id' = 2, created_at = 100, created_by = 2, batch = 1,
          annotations = ''[cone]'', review_status = ''pending''\<rparr>],
      users = [example_admin, example_moderator, example_user],
      label_categories = [],
      label_super_categories = [],
      pending = [],
      commits = 0,
      schema = example_schema\<rparr>"

definition example_team_number_from_id ::
  "int \<Rightarrow> ('i, 's, 'c, 'sc) Session \<Rightarrow> unit + int" where
  "example_team_number_from_id user_id session =
     (case find (\<lambda>u. User.id' u = user_id) (users session) of
        None \<Rightarrow> Inl ()
      | Some u \<Rightarrow> Inr (team_number u))"

definition example_id_from_team_number ::
  "int \<Rightarrow> ('i, 's, 'c, 'sc) Session \<Rightarrow> unit + int" where
  "example_id_from_team_number team session =
     (case find (\<lambda>u. team_number u = team) (users session) of
        None \<Rightarrow> Inl ()
      | Some u \<Rightarrow> Inr (User.id' u))"

definition example_user_from_username ::
  "string \<Rightarrow> ('i, 's, 'c, 'sc) Session \<Rightarrow> unit + User" where
  "example_user_from_username name session =
     (case find (\<lambda>u. username u = name) (users session) of
        None \<Rightarrow> Inl ()
      | Some u \<Rightarrow> Inr u)"

text \<open>An order an engine may give rows of equal \<open>created_at\<close>: by primary key.\<close>

definition example_tie_up :: "(nat, string) Image \<Rightarrow> nat" where
  "example_tie_up r = Image.id' r"

definition example_new_data :: "(nat, string) ReviewMetadata" where
  "example_new_data =
     \<lparr>ReviewMetadata.id' = 2, annotations = ''[cone, cube]'', created_at = 120,
      created_by = 300, batch = 7, review_status = ''approved''\<rparr>"

definition example_out_of_range :: "(nat, string) ReviewMetadata" where
  "example_out_of_range =
     \<lparr>ReviewMetadata.id' = 2, annotations = ''[cone, cube]'', created_at = 120,
      created_by = 300, batch = 9223372036854775808, review_status = ''approved''\<rparr>"

section \<open>Properties\<close>

subsection \<open>Lists, statements and the unit of work\<close>

lemma py_not_Some: "\<not> py_not (Some x)"
  by (simp add: py_not_def)

lemma hd_sort_key_least:
  assumes "xs \<noteq> []"
  shows "hd (sort_key f xs) \<in> set xs \<and> (\<forall>y\<in>set xs. f (hd (sort_key f xs)) \<le> f y)"
proof -
  obtain z zs where ys: "sort_key f xs = z # zs"
    using assms by (cases "sort_key f xs") (auto dest: arg_cong [where f = length])
  have "set (z # zs) = set xs" and "sorted (map f (z # zs))"
    using ys [symmetric] by simp_all
  then show ?thesis
    unfolding ys by auto
qed

lemma update_row_by_key:
  assumes "distinct (map f xs)" and "x \<in> set xs"
  shows "map (\<lambda>r. if f r = f x then y else r) xs = map (\<lambda>r. if r = x then y else r) xs"
proof (rule map_cong [OF refl])
  fix r assume "r \<in> set xs"
  with assms have "f r = f x \<longleftrightarrow> r = x"
    by (auto simp: distinct_map dest: inj_onD)
  then show "(if f r = f x then y else r) = (if r = x then y else r)"
    by simp
qed

lemma delete_row_by_key:
  assumes "distinct (map f xs)" and "x \<in> set xs"
  shows "filter (\<lambda>r. f r \<noteq> f x) xs = remove1 x xs"
proof -
  have d: "distinct xs"
    using assms(1) by (simp add: distinct_map)
  have "filter (\<lambda>r. f r \<noteq> f x) xs = filter (\<lambda>r. x \<noteq> r) xs"
  proof (rule filter_cong [OF refl])
    fix r assume "r \<in> set xs"
    with assms show "(f r \<noteq> f x) = (x \<noteq> r)"
      by (auto simp: distinct_map dest: inj_onD)
  qed
  also have "\<dots> = remove1 x xs"
    using d by (simp add: distinct_remove1_removeAll removeAll_filter_not_eq)
  finally show ?thesis .
qed

lemma review_rows:
  "session_exec (limit n (order_by_asc tie Image.created_at
       (where_clause (\<lambda>r. Image.review_status r = target_status) select))) session =
   take n (sort_key (\<lambda>r. (Image.created_at r, tie r))
     (filter (\<lambda>r. Image.review_status r = target_status) (images session)))"
  by (simp add: session_exec_def limit_def order_by_asc_def where_clause_def select_def)

lemma session_get_Some:
  "session_get session pk = Some img \<Longrightarrow> img \<in> set (images session) \<and> Image.id' img = pk"
  unfolding session_get_def by (auto simp: find_Some_iff)

lemma session_get_None:
  "session_get session pk = None \<longleftrightarrow> (\<forall>r\<in>set (images session). Image.id' r \<noteq> pk)"
  unfolding session_get_def by (auto simp: find_None_iff)

lemma stored_pending [simp]: "stored (session\<lparr>pending := p\<rparr>) = stored session"
  by (simp add: stored_def)

lemma commit_add_image:
  "pending session = [] \<Longrightarrow>
   session_commit (session_add (ImageObj img) session) =
     (case image_update (schema session) (stored session) img of
        Some e \<Rightarrow> Inl e
      | None \<Rightarrow>
          Inr (session\<lparr>images :=
                        map (\<lambda>r. if Image.id' r = Image.id' img then img else r) (images session),
                      commits := Suc (commits session)\<rparr>))"
  by (simp add: session_commit_def session_add_def split: option.splits)

lemma commit_delete_image:
  "pending session = [] \<Longrightarrow>
   session_commit (session_delete (ImageObj img) session) =
     Inr (session\<lparr>images := filter (\<lambda>r. Image.id' r \<noteq> Image.id' img) (images session),
                 commits := Suc (commits session)\<rparr>)"
  by (simp add: session_commit_def session_delete_def)

lemma commit_add_user:
  "pending session = [] \<Longrightarrow>
   session_commit (session_add (UserObj user) session) =
     Inr (session\<lparr>users := map (\<lambda>r. if User.id' r = User.id' user then user else r) (users session),
                 commits := Suc (commits session)\<rparr>)"
  by (simp add: session_commit_def session_add_def)

lemma commit_add_label_category:
  "pending session = [] \<Longrightarrow>
   session_commit (session_add (LabelCategoryObj category) session) =
     (case category_insert (schema session) (stored session) category of
        Some e \<Rightarrow> Inl e
      | None \<Rightarrow>
          Inr (session\<lparr>label_categories := label_categories session @ [category],
                      commits := Suc (commits session)\<rparr>))"
  by (simp add: session_commit_def session_add_def split: option.splits)

lemma commit_add_label_super_category:
  "pending session = [] \<Longrightarrow>
   session_commit (session_add (LabelSuperCategoryObj category) session) =
     (case super_category_insert (schema session) (stored session) category of
        Some e \<Rightarrow> Inl e
      | None \<Rightarrow>
          Inr (session\<lparr>label_super_categories := label_super_categories session @ [category],
                      commits := Suc (commits session)\<rparr>))"
  by (simp add: session_commit_def session_add_def split: option.splits)

lemma committed_not_http:
  "fst (committed session outcome) \<noteq> Inl (HTTPException code detail)"
  by (cases outcome) (simp_all add: committed_def)

subsection \<open>The review query\<close>

lemma get_image_for_review_empty:
  assumes "filter (\<lambda>r. Image.review_status r = target_status) (images session) = []"
  shows "get_image_for_review truthy helper tie current_user session target_status = Inl NoResultFound"
  using assms by (simp add: get_image_for_review_def review_rows)

lemma get_image_for_review_first:
  assumes "filter (\<lambda>r. Image.review_status r = target_status) (images session) \<noteq> []"
  shows "get_image_for_review truthy helper tie current_user session target_status =
    (let img = hd (sort_key (\<lambda>r. (Image.created_at r, tie r))
                 (filter (\<lambda>r. Image.review_status r = target_status) (images session)))
     in if \<not> truthy (Image.id' img) then Inl AssertionError
        else (case helper (Image.created_by img) session of
                  Inl e \<Rightarrow> Inl (Raised e)
                | Inr team \<Rightarrow>
                    Inr \<lparr>ReviewMetadata.id' = Image.id' img,
                         annotations = Image.annotations img,
                         created_at = Image.created_at img,
                         created_by = team,
                         batch = Image.batch img,
                         review_status = Image.review_status img\<rparr>))"
proof -
  let ?rows = "sort_key (\<lambda>r. (Image.created_at r, tie r))
                 (filter (\<lambda>r. Image.review_status r = target_status) (images session))"
  have "?rows \<noteq> []"
    using assms by (auto dest: arg_cong [where f = length])
  then have "take (Suc 0) ?rows = [hd ?rows]"
    by (cases ?rows) simp_all
  then show ?thesis
    by (simp add: get_image_for_review_def review_rows py_not_Some Let_def)
qed

lemmas example_defs =
  example_session_def example_tied_session_def example_truthy_def example_admin_def
  example_moderator_def example_user_def example_team_number_from_id_def
  example_id_from_team_number_def example_user_from_username_def example_new_data_def
  example_tie_up_def example_schema_def example_out_of_range_def

section \<open>The claims\<close>

text \<open>
  C1. When some stored image has the requested status, \<open>GET /review-image\<close>
  answers with the metadata of one stored image: it has the requested status, no
  stored image of that status has an earlier \<open>created_at\<close>, and the answer carries
  its fields, with \<open>created_by\<close> turned into the creator's team number. The query is
  the single statement filter, sort, limit 1 of the definition. The two further
  premises are about the parts outside the module: a stored primary key is truthy
  (so \<open>assert image.id\<close> passes), and the helper finds the team number of every
  stored image's creator.
\<close>

theorem get_image_for_review_oldest:
  assumes match: "\<exists>r\<in>set (images session). Image.review_status r = target_status"
    and ids: "\<forall>r\<in>set (images session). truthy (Image.id' r)"
    and teams: "\<forall>r\<in>set (images session).
                  \<exists>team. get_team_number_from_id (Image.created_by r) session = Inr team"
  shows "\<exists>img\<in>set (images session). \<exists>team.
           Image.review_status img = target_status \<and>
           (\<forall>r\<in>set (images session).
              Image.review_status r = target_status \<longrightarrow> Image.created_at img \<le> Image.created_at r) \<and>
           get_team_number_from_id (Image.created_by img) session = Inr team \<and>
           get_image_for_review truthy get_team_number_from_id tie current_user session target_status =
             Inr \<lparr>ReviewMetadata.id' = Image.id' img,
                  annotations = Image.annotations img,
                  created_at = Image.created_at img,
                  created_by = team,
                  batch = Image.batch img,
                  review_status = Image.review_status img\<rparr>"
proof -
  let ?queue = "filter (\<lambda>r. Image.review_status r = target_status) (images session)"
  let ?key = "\<lambda>r. (Image.created_at r, tie r)"
  define img where "img = hd (sort_key ?key ?queue)"
  have nonempty: "?queue \<noteq> []"
    using match by (auto simp: filter_empty_conv)
  from hd_sort_key_least [OF nonempty, of ?key]
  have member: "img \<in> set ?queue" and least: "\<forall>r\<in>set ?queue. ?key img \<le> ?key r"
    unfolding img_def by blast+
  from member have stored: "img \<in> set (images session)"
    and status: "Image.review_status img = target_status"
    by simp_all
  have oldest: "\<forall>r\<in>set (images session).
      Image.review_status r = target_status \<longrightarrow> Image.created_at img \<le> Image.created_at r"
  proof (intro ballI impI)
    fix r assume "r \<in> set (images session)" and "Image.review_status r = target_status"
    then have "?key img \<le> ?key r"
      using least by simp
    then show "Image.created_at img \<le> Image.created_at r"
      by (auto simp: less_eq_prod_def)
  qed
  from teams stored obtain team
    where team: "get_team_number_from_id (Image.created_by img) session = Inr team"
    by blast
  have "get_image_for_review truthy get_team_number_from_id tie current_user session target_status =
      Inr \<lparr>ReviewMetadata.id' = Image.id' img,
           annotations = Image.annotations img,
           created_at = Image.created_at img,
           created_by = team,
           batch = Image.batch img,
           review_status = Image.review_status img\<rparr>"
    using ids stored team
    by (simp add: get_image_for_review_first [OF nonempty] img_def [symmetric])
  with stored status oldest team show ?thesis
    by blast
qed

text \<open>The instance at the example session: image 2 is the oldest pending one.\<close>

theorem get_image_for_review_oldest_witness:
  "get_image_for_review example_truthy example_team_number_from_id example_tie_up
     example_moderator example_session ''pending'' =
   Inr \<lparr>ReviewMetadata.id' = 2, annotations = ''[cone]'', created_at = 100,
        created_by = 200, batch = 1, review_status = ''pending''\<rparr>"
proof -
  have match: "\<exists>r\<in>set (images example_session). Image.review_status r = ''pending''"
    by (simp add: example_session_def)
  have ids: "\<forall>r\<in>set (images example_session). example_truthy (Image.id' r)"
    by (simp add: example_session_def example_truthy_def)
  have teams: "\<forall>r\<in>set (images example_session).
      \<exists>team. example_team_number_from_id (Image.created_by r) example_session = Inr team"
    by (simp add: example_defs)
  from get_image_for_review_oldest
         [where session = example_session and target_status = "''pending''"
            and truthy = example_truthy
            and get_team_number_from_id = example_team_number_from_id
            and tie = example_tie_up and current_user = example_moderator,
          OF match ids teams]
  obtain img team where "img \<in> set (images example_session)"
    and "Image.review_status img = ''pending''"
    and "\<forall>r\<in>set (images example_session).
           Image.review_status r = ''pending'' \<longrightarrow> Image.created_at img \<le> Image.created_at r"
    and "example_team_number_from_id (Image.created_by img) example_session = Inr team"
    and "get_image_for_review example_truthy example_team_number_from_id example_tie_up
           example_moderator example_session ''pending'' =
         Inr \<lparr>ReviewMetadata.id' = Image.id' img, annotations = Image.annotations img,
              created_at = Image.created_at img, created_by = team,
              batch = Image.batch img, review_status = Image.review_status img\<rparr>"
    by blast
  then show ?thesis
    by (auto simp: example_defs)
qed

text \<open>
  C9. In \<open>GET /review-image\<close> the branch that raises \<open>LookupError\<close> is never taken:
  \<open>one()\<close> hands over a row or raises. When no stored image has the requested
  status the handler ends in \<open>NoResultFound\<close>, so it never returns normally on an
  empty queue; and \<open>assert image.id\<close> can only fail on a row that was retrieved, a
  stored image of the requested status.
\<close>

theorem get_image_for_review_lookup_error_unreachable:
  "get_image_for_review truthy get_team_number_from_id tie current_user session target_status
     \<noteq> Inl LookupError \<and>
   ((\<forall>r\<in>set (images session). Image.review_status r \<noteq> target_status) \<longrightarrow>
      get_image_for_review truthy get_team_number_from_id tie current_user session target_status
        = Inl NoResultFound) \<and>
   (get_image_for_review truthy get_team_number_from_id tie current_user session target_status
      = Inl AssertionError \<longrightarrow>
      (\<exists>r\<in>set (images session). Image.review_status r = target_status \<and> \<not> truthy (Image.id' r)))"
proof -
  let ?queue = "filter (\<lambda>r. Image.review_status r = target_status) (images session)"
  let ?result =
    "get_image_for_review truthy get_team_number_from_id tie current_user session target_status"
  show ?thesis
  proof (cases "?queue = []")
    case True
    then have "?result = Inl NoResultFound"
      by (rule get_image_for_review_empty)
    then show ?thesis
      by simp
  next
    case False
    define img where "img = hd (sort_key (\<lambda>r. (Image.created_at r, tie r)) ?queue)"
    from hd_sort_key_least [OF False, of "\<lambda>r. (Image.created_at r, tie r)"]
    have "img \<in> set ?queue"
      unfolding img_def by blast
    then have stored: "img \<in> set (images session)"
      and status: "Image.review_status img = target_status"
      by simp_all
    have result: "?result =
        (if \<not> truthy (Image.id' img) then Inl AssertionError
         else (case get_team_number_from_id (Image.created_by img) session of
                 Inl e \<Rightarrow> Inl (Raised e)
               | Inr team \<Rightarrow>
                   Inr \<lparr>ReviewMetadata.id' = Image.id' img,
                        annotations = Image.annotations img,
                        created_at = Image.created_at img,
                        created_by = team,
                        batch = Image.batch img,
                        review_status = Image.review_status img\<rparr>))"
      by (simp add: get_image_for_review_first [OF False] img_def [symmetric])
    have no_lookup: "?result \<noteq> Inl LookupError"
      unfolding result by (simp split: sum.splits)
    have queue: "\<not> (\<forall>r\<in>set (images session). Image.review_status r \<noteq> target_status)"
      using stored status by blast
    have asserted: "?result = Inl AssertionError \<longrightarrow>
        (\<exists>r\<in>set (images session). Image.review_status r = target_status \<and> \<not> truthy (Image.id' r))"
      unfolding result using stored status by (auto split: if_splits sum.splits)
    from no_lookup queue asserted show ?thesis
      by blast
  qed
qed

text \<open>The instance at the example session, where no image is \<open>rejected\<close>.\<close>

theorem get_image_for_review_lookup_error_unreachable_witness:
  "get_image_for_review example_truthy example_team_number_from_id example_tie_up
     example_moderator example_session ''rejected'' = Inl NoResultFound \<and>
   get_image_for_review example_truthy example_team_number_from_id example_tie_up
     example_moderator example_session ''rejected'' \<noteq> Inl LookupError"
  using get_image_for_review_lookup_error_unreachable
          [where session = example_session and target_status = "''rejected''"
             and truthy = example_truthy
             and get_team_number_from_id = example_team_number_from_id
             and tie = example_tie_up and current_user = example_moderator]
  by (simp add: example_session_def)



text \<open>
  C2 as stated fails: the image exists and the team number converts, but the new
  \<open>batch\<close> does not fit its column, so \<open>session.commit()\<close> raises; the image keeps
  its values and nothing is committed.
\<close>

theorem update_image_review_status_out_of_range_counterexample:
  "session_get example_session (ReviewMetadata.id' example_out_of_range) =
     Some \<lparr>Image.id' = 2, created_at = 100, created_by = 2, batch = 1,
           annotations = ''[cone]'', review_status = ''pending''\<rparr> \<and>
   example_id_from_team_number (ReviewMetadata.created_by example_out_of_range) example_session =
     Inr 3 \<and>
   update_image_review_status example_id_from_team_number example_out_of_range example_session
     example_moderator False =
   (Inl (CommitRaised OverflowError), example_session)"
  by (simp add: update_image_review_status_def session_get_def committed_def commit_add_image
      stored_def example_defs)

text \<open>
  C2, amended. A call of \<open>PUT /review-image\<close> with \<open>remove_image = False\<close> for an
  image that exists, with a team number the helper converts to a user id, on a fresh
  session with unique primary keys: when the database accepts the new values for the
  row, the call returns normally, the stored image has \<open>batch\<close>, \<open>created_at\<close>,
  \<open>annotations\<close> and \<open>review_status\<close> of \<open>new_data\<close> and \<open>created_by\<close> the converted
  user id, every other row and table is as it was, and there is one commit. When
  the database turns the update down, its error leaves \<open>session.commit()\<close> and the
  session is as the request found it.
\<close>

theorem update_image_review_status_sets_fields:
  assumes fresh: "pending session = []"
    and keys: "distinct (map Image.id' (images session))"
    and found: "session_get session (ReviewMetadata.id' new_data) = Some img"
    and converted: "get_id_from_team_number (ReviewMetadata.created_by new_data) session = Inr user_id"
  shows "(image_update (schema session) (stored session)
            (img\<lparr>Image.batch := ReviewMetadata.batch new_data,
                 Image.created_at := ReviewMetadata.created_at new_data,
                 Image.created_by := user_id,
                 Image.annotations := ReviewMetadata.annotations new_data,
                 Image.review_status := ReviewMetadata.review_status new_data\<rparr>) = None \<longrightarrow>
          update_image_review_status get_id_from_team_number new_data session current_user False =
            (Inr (),
             session\<lparr>images :=
                        map (\<lambda>r. if r = img
                                 then img\<lparr>Image.batch := ReviewMetadata.batch new_data,
                                          Image.created_at := ReviewMetadata.created_at new_data,
                                          Image.created_by := user_id,
                                          Image.annotations := ReviewMetadata.annotations new_data,
                                          Image.review_status := ReviewMetadata.review_status new_data\<rparr>
                                 else r)
                          (images session),
                     commits := Suc (commits session)\<rparr>)) \<and>
         (\<forall>e. image_update (schema session) (stored session)
                (img\<lparr>Image.batch := ReviewMetadata.batch new_data,
                     Image.created_at := ReviewMetadata.created_at new_data,
                     Image.created_by := user_id,
                     Image.annotations := ReviewMetadata.annotations new_data,
                     Image.review_status := ReviewMetadata.review_status new_data\<rparr>) = Some e \<longrightarrow>
              update_image_review_status get_id_from_team_number new_data session current_user False =
                (Inl (CommitRaised e), session))"
proof -
  let ?img' = "img\<lparr>Image.batch := ReviewMetadata.batch new_data,
                    Image.created_at := ReviewMetadata.created_at new_data,
                    Image.created_by := user_id,
                    Image.annotations := ReviewMetadata.annotations new_data,
                    Image.review_status := ReviewMetadata.review_status new_data\<rparr>"
  from session_get_Some [OF found] have stored: "img \<in> set (images session)"
    by simp
  have handler: "update_image_review_status get_id_from_team_number new_data session current_user False =
      committed session (session_commit (session_add (ImageObj ?img') session))"
    using found converted by (simp add: update_image_review_status_def)
  have rows: "map (\<lambda>r. if Image.id' r = Image.id' img then ?img' else r) (images session) =
      map (\<lambda>r. if r = img then ?img' else r) (images session)"
    using keys stored by (rule update_row_by_key)
  have accepted: "update_image_review_status get_id_from_team_number new_data session current_user False =
      (Inr (),
       session\<lparr>images := map (\<lambda>r. if r = img then ?img' else r) (images session),
               commits := Suc (commits session)\<rparr>)"
    if "image_update (schema session) (stored session) ?img' = None"
    using that commit_add_image [OF fresh, of ?img'] rows
    by (simp add: handler committed_def)
  have refused: "update_image_review_status get_id_from_team_number new_data session current_user False =
      (Inl (CommitRaised e), session)"
    if "image_update (schema session) (stored session) ?img' = Some e" for e
    using that commit_add_image [OF fresh, of ?img']
    by (simp add: handler committed_def)
  from accepted refused show ?thesis
    by blast
qed

text \<open>The instance at the example session: image 2 takes the new values.\<close>

theorem update_image_review_status_sets_fields_witness:
  "update_image_review_status example_id_from_team_number example_new_data example_session
     example_moderator False =
   (Inr (),
    example_session
      \<lparr>images :=
         [\<lparr>Image.id' = 1, created_at = 300, created_by = 3, batch = 1,
           annotations = ''[]'', review_status = ''pending''\<rparr>,
          \<lparr>Image.id' = 2, created_at = 120, created_by = 3, batch = 7,
           annotations = ''[cone, cube]'', review_status = ''approved''\<rparr>,
          \<lparr>Image.id' = 3, created_at = 50, created_by = 3, batch = 2,
           annotations = ''[cube]'', review_status = ''approved''\<rparr>],
       commits := 1\<rparr>)"
proof -
  have fresh: "pending example_session = []"
    by (simp add: example_session_def)
  have keys: "distinct (map Image.id' (images example_session))"
    by (simp add: example_session_def)
  have found: "session_get example_session (ReviewMetadata.id' example_new_data) =
      Some \<lparr>Image.id' = 2, created_at = 100, created_by = 2, batch = 1,
            annotations = ''[cone]'', review_status = ''pending''\<rparr>"
    by (simp add: session_get_def example_session_def example_new_data_def)
  have converted: "example_id_from_team_number (ReviewMetadata.created_by example_new_data)
      example_session = Inr 3"
    by (simp add: example_defs)
  show ?thesis
    using update_image_review_status_sets_fields
            [where get_id_from_team_number = example_id_from_team_number
               and current_user = example_moderator,
             OF fresh keys found converted]
    by (simp add: stored_def example_session_def example_new_data_def example_schema_def)
qed

text \<open>
  C7. \<open>PUT /review-image\<close> raises the HTTP exception 404 \<open>Image not found\<close> exactly
  when no stored image has the primary key \<open>new_data.id\<close>; then the session is
  returned as it was: no row deleted or updated, no commit.
\<close>

theorem update_image_review_status_not_found:
  "(fst (update_image_review_status get_id_from_team_number new_data session current_user
           remove_image) = Inl (HTTPException 404 ''Image not found'')) =
     (\<forall>r\<in>set (images session). Image.id' r \<noteq> ReviewMetadata.id' new_data) \<and>
   ((\<forall>r\<in>set (images session). Image.id' r \<noteq> ReviewMetadata.id' new_data) \<longrightarrow>
      update_image_review_status get_id_from_team_number new_data session current_user
        remove_image = (Inl (HTTPException 404 ''Image not found''), session))"
proof (cases "session_get session (ReviewMetadata.id' new_data)")
  case None
  then have "\<forall>r\<in>set (images session). Image.id' r \<noteq> ReviewMetadata.id' new_data"
    by (simp add: session_get_None)
  moreover have "update_image_review_status get_id_from_team_number new_data session current_user
      remove_image = (Inl (HTTPException 404 ''Image not found''), session)"
    using None by (simp add: update_image_review_status_def HTTP_404_NOT_FOUND_def)
  ultimately show ?thesis
    by simp
next
  case (Some img)
  then have "\<not> (\<forall>r\<in>set (images session). Image.id' r \<noteq> ReviewMetadata.id' new_data)"
    using session_get_None [of session "ReviewMetadata.id' new_data"] by simp
  moreover have "fst (update_image_review_status get_id_from_team_number new_data session
      current_user remove_image) \<noteq> Inl (HTTPException 404 ''Image not found'')"
    using Some
    by (simp add: update_image_review_status_def committed_not_http Let_def split: sum.splits)
  ultimately show ?thesis
    by blast
qed

text \<open>
  The instances at the example session: primary key 9 is unknown and gives the 404,
  primary key 2 is stored and does not.
\<close>

theorem update_image_review_status_not_found_witness:
  "update_image_review_status example_id_from_team_number
     (example_new_data\<lparr>ReviewMetadata.id' := 9\<rparr>) example_session example_moderator True =
     (Inl (HTTPException 404 ''Image not found''), example_session) \<and>
   fst (update_image_review_status example_id_from_team_number example_new_data example_session
          example_moderator True) \<noteq> Inl (HTTPException 404 ''Image not found'')"
  using update_image_review_status_not_found
          [of example_id_from_team_number "example_new_data\<lparr>ReviewMetadata.id' := 9\<rparr>"
              example_session example_moderator True]
        update_image_review_status_not_found
          [of example_id_from_team_number example_new_data example_session example_moderator True]
  by (simp add: example_session_def example_new_data_def)

text \<open>
  C8. On a fresh session, a call of \<open>PUT /review-image\<close> with \<open>remove_image = True\<close>
  for an image that exists returns normally, deletes the rows with that primary key
  (with unique primary keys: that image and nothing else), leaves the remaining rows
  and the other tables as they were, writes none of \<open>new_data\<close>'s values, and
  commits once. With \<open>remove_image = False\<close> no row of any table is deleted, in
  every case: the stored primary keys of the images are the same before and after,
  every image with another primary key is still stored as it was, and the users,
  the categories and the super categories are the rows they were.
\<close>

theorem update_image_review_status_removes:
  assumes fresh: "pending session = []"
  shows "(session_get session (ReviewMetadata.id' new_data) = Some img \<longrightarrow>
            update_image_review_status get_id_from_team_number new_data session current_user True =
              (Inr (),
               session\<lparr>images :=
                          filter (\<lambda>r. Image.id' r \<noteq> ReviewMetadata.id' new_data) (images session),
                       commits := Suc (commits session)\<rparr>) \<and>
            (distinct (map Image.id' (images session)) \<longrightarrow>
               images (snd (update_image_review_status get_id_from_team_number new_data session
                              current_user True)) = remove1 img (images session))) \<and>
         map Image.id'
           (images (snd (update_image_review_status get_id_from_team_number new_data session
                           current_user False))) = map Image.id' (images session) \<and>
         (\<forall>r\<in>set (images session).
            Image.id' r \<noteq> ReviewMetadata.id' new_data \<longrightarrow>
            r \<in> set (images (snd (update_image_review_status get_id_from_team_number new_data
                                     session current_user False)))) \<and>
         users (snd (update_image_review_status get_id_from_team_number new_data session
                       current_user False)) = users session \<and>
         label_categories (snd (update_image_review_status get_id_from_team_number new_data session
                                  current_user False)) = label_categories session \<and>
         label_super_categories
           (snd (update_image_review_status get_id_from_team_number new_data session
                   current_user False)) = label_super_categories session"
proof -
  let ?put = "update_image_review_status get_id_from_team_number new_data session current_user"
  have removed: "?put True =
      (Inr (),
       session\<lparr>images :=
                  filter (\<lambda>r. Image.id' r \<noteq> ReviewMetadata.id' new_data) (images session),
               commits := Suc (commits session)\<rparr>)"
    if found: "session_get session (ReviewMetadata.id' new_data) = Some img"
    using found commit_delete_image [OF fresh, of img] session_get_Some [OF found]
    by (simp add: update_image_review_status_def committed_def)
  have exactly: "images (snd (?put True)) = remove1 img (images session)"
    if found: "session_get session (ReviewMetadata.id' new_data) = Some img"
      and keys: "distinct (map Image.id' (images session))"
  proof -
    from session_get_Some [OF found] have stored: "img \<in> set (images session)"
      and key: "Image.id' img = ReviewMetadata.id' new_data"
      by simp_all
    show ?thesis
      using delete_row_by_key [OF keys stored] key by (simp add: removed [OF found])
  qed
  have kept: "snd (?put False) = session \<or>
      (\<exists>row. Image.id' row = ReviewMetadata.id' new_data \<and>
         snd (?put False) =
           session\<lparr>images :=
                      map (\<lambda>r. if Image.id' r = ReviewMetadata.id' new_data then row else r)
                        (images session),
                   commits := Suc (commits session)\<rparr>)"
  proof (cases "session_get session (ReviewMetadata.id' new_data)")
    case None
    then show ?thesis
      by (simp add: update_image_review_status_def)
  next
    case (Some row)
    from session_get_Some [OF Some] have key: "Image.id' row = ReviewMetadata.id' new_data"
      by simp
    show ?thesis
    proof (cases "get_id_from_team_number (ReviewMetadata.created_by new_data) session")
      case (Inl e)
      then show ?thesis
        using Some by (simp add: update_image_review_status_def)
    next
      case (Inr user_id)
      let ?row' = "row\<lparr>Image.batch := ReviewMetadata.batch new_data,
                        Image.created_at := ReviewMetadata.created_at new_data,
                        Image.created_by := user_id,
                        Image.annotations := ReviewMetadata.annotations new_data,
                        Image.review_status := ReviewMetadata.review_status new_data\<rparr>"
      have handler: "?put False =
          committed session (session_commit (session_add (ImageObj ?row') session))"
        using Some Inr by (simp add: update_image_review_status_def)
      show ?thesis
      proof (cases "image_update (schema session) (stored session) ?row'")
        case None
        then have "snd (?put False) =
            session\<lparr>images :=
                       map (\<lambda>r. if Image.id' r = ReviewMetadata.id' new_data then ?row' else r)
                         (images session),
                    commits := Suc (commits session)\<rparr>"
          using commit_add_image [OF fresh, of ?row'] key
          by (simp add: handler committed_def)
        moreover have "Image.id' ?row' = ReviewMetadata.id' new_data"
          using key by simp
        ultimately show ?thesis
          by blast
      next
        case (Some e)
        then show ?thesis
          using commit_add_image [OF fresh, of ?row']
          by (simp add: handler committed_def)
      qed
    qed
  qed
  have ids: "map Image.id' (images (snd (?put False))) = map Image.id' (images session)"
    using kept
  proof (elim disjE exE conjE)
    assume "snd (?put False) = session"
    then show ?thesis
      by simp
  next
    fix row
    assume key: "Image.id' row = ReviewMetadata.id' new_data"
      and "snd (?put False) =
        session\<lparr>images :=
                   map (\<lambda>r. if Image.id' r = ReviewMetadata.id' new_data then row else r)
                     (images session),
                commits := Suc (commits session)\<rparr>"
    then have "map Image.id' (images (snd (?put False))) =
        map (\<lambda>r. if Image.id' r = ReviewMetadata.id' new_data then Image.id' row else Image.id' r)
          (images session)"
      by (simp add: comp_def if_distrib [of Image.id'])
    also have "\<dots> = map Image.id' (images session)"
      using key by (intro map_cong) simp_all
    finally show ?thesis .
  qed
  have others: "r \<in> set (images (snd (?put False)))"
    if "r \<in> set (images session)" and "Image.id' r \<noteq> ReviewMetadata.id' new_data" for r
    using kept
  proof (elim disjE exE conjE)
    assume "snd (?put False) = session"
    then show ?thesis
      using that by simp
  next
    fix row
    assume "snd (?put False) =
        session\<lparr>images :=
                   map (\<lambda>r. if Image.id' r = ReviewMetadata.id' new_data then row else r)
                     (images session),
                commits := Suc (commits session)\<rparr>"
    then have "set (images (snd (?put False))) =
        (\<lambda>r. if Image.id' r = ReviewMetadata.id' new_data then row else r) ` set (images session)"
      by simp
    moreover have "r = (\<lambda>r. if Image.id' r = ReviewMetadata.id' new_data then row else r) r"
      using that by simp
    ultimately show ?thesis
      using that(1) by blast
  qed
  have tables: "users (snd (?put False)) = users session \<and>
      label_categories (snd (?put False)) = label_categories session \<and>
      label_super_categories (snd (?put False)) = label_super_categories session"
    using kept by auto
  from removed exactly ids others tables show ?thesis
    by blast
qed

text \<open>
  The instances at the example session: removing image 2 leaves images 1 and 3;
  updating it keeps the three primary keys and the three users.
\<close>

theorem update_image_review_status_removes_witness:
  "update_image_review_status example_id_from_team_number example_new_data example_session
     example_moderator True =
   (Inr (),
    example_session
      \<lparr>images :=
         [\<lparr>Image.id' = 1, created_at = 300, created_by = 3, batch = 1,
           annotations = ''[]'', review_status = ''pending''\<rparr>,
          \<lparr>Image.id' = 3, created_at = 50, created_by = 3, batch = 2,
           annotations = ''[cube]'', review_status = ''approved''\<rparr>],
       commits := 1\<rparr>) \<and>
   map Image.id'
     (images (snd (update_image_review_status example_id_from_team_number example_new_data
                     example_session example_moderator False))) = [1, 2, 3] \<and>
   users (snd (update_image_review_status example_id_from_team_number example_new_data
                 example_session example_moderator False)) =
     [example_admin, example_moderator, example_user]"
proof -
  have fresh: "pending example_session = []"
    by (simp add: example_session_def)
  have found: "session_get example_session (ReviewMetadata.id' example_new_data) =
      Some \<lparr>Image.id' = 2, created_at = 100, created_by = 2, batch = 1,
            annotations = ''[cone]'', review_status = ''pending''\<rparr>"
    by (simp add: session_get_def example_session_def example_new_data_def)
  show ?thesis
    using update_image_review_status_removes
            [where get_id_from_team_number = example_id_from_team_number
               and current_user = example_moderator
               and new_data = example_new_data
               and img = "\<lparr>Image.id' = 2, created_at = 100, created_by = 2, batch = 1,
                           annotations = ''[cone]'', review_status = ''pending''\<rparr>",
             OF fresh]
          found
    by (simp add: example_session_def example_new_data_def)
qed

text \<open>
  C3. Every route other than \<open>/change-user-role\<close> and \<open>/token\<close> carries the
  dependency \<open>minimum_role(UserRole.MODERATOR)\<close>. A caller whose role ranks at least
  as high as \<open>MODERATOR\<close> passes it, and the request reaches the handler when the
  route's rate limiter, if it has one, admits it. A caller of a lower role is
  rejected: the request ends in an exception with the state untouched, whatever the
  handler is, so the handler body has not run.
\<close>

theorem minimum_role_moderator_guard:
  assumes "ep \<noteq> PUT_change_user_role" and "ep \<noteq> POST_token"
  shows "(security ep :: (User \<Rightarrow> 'e error + User) option) = Some (minimum_role MODERATOR) \<and>
         (level MODERATOR \<le> level (role user) \<longrightarrow>
            (minimum_role MODERATOR user :: 'e error + User) = Inr user \<and>
            (rate_limiter ep = None \<or> admitted \<longrightarrow>
               request ep admitted user body state = (body user state :: ('e error + 'a) \<times> 'st))) \<and>
         (level (role user) < level MODERATOR \<longrightarrow>
            (minimum_role MODERATOR user :: 'e error + User) = Inl InsufficientRole \<and>
            (\<exists>e. request ep admitted user body state = (Inl e, state)))"
  using assms by (cases ep) (auto simp: request_def minimum_role_def)

text \<open>
  The instances at \<open>PUT /categories/create\<close>: the moderator's request is the handler's
  result, the plain user's request is an exception on the unchanged session.
\<close>

theorem minimum_role_moderator_guard_witness:
  "request PUT_categories_create True example_moderator
     (\<lambda>u s. create_label_category ''cube'' s u) example_session =
   (create_label_category ''cube'' example_session example_moderator
      :: (unit error + unit) \<times> (nat, string, string, string) Session) \<and>
   (\<exists>e. request PUT_categories_create True example_user
          (\<lambda>u s. create_label_category ''cube'' s u) example_session =
        (Inl e :: unit error + unit, example_session))"
  using minimum_role_moderator_guard
          [where ?'e = unit and ep = PUT_categories_create and user = example_moderator
             and admitted = True and state = example_session
             and body = "\<lambda>u s. create_label_category ''cube'' s u"]
        minimum_role_moderator_guard
          [where ?'e = unit and ep = PUT_categories_create and user = example_user
             and admitted = True and state = example_session
             and body = "\<lambda>u s. create_label_category ''cube'' s u"]
  by (simp add: example_moderator_def example_user_def)

text \<open>
  C4. \<open>PUT /change-user-role\<close> rejects every caller whose role is not \<open>ADMIN\<close> and
  leaves the session untouched. For an admin, on an admitted request and a fresh
  session with unique user ids, when the helper returns a stored user for the name,
  the request returns normally, the stored user has the role \<open>new_role\<close> and its other
  fields as before, every other row and table is as it was, and there is one commit.
\<close>

theorem change_user_role_admin_only:
  "(role current_user \<noteq> ADMIN \<longrightarrow>
      (\<exists>e. request PUT_change_user_role admitted current_user
              (\<lambda>u s. change_user_role get_user_from_username username' new_role s u) session =
            (Inl e, session))) \<and>
   (role current_user = ADMIN \<and> admitted \<and> pending session = [] \<and>
    distinct (map User.id' (users session)) \<and>
    get_user_from_username username' session = Inr user \<and> user \<in> set (users session) \<longrightarrow>
      request PUT_change_user_role admitted current_user
        (\<lambda>u s. change_user_role get_user_from_username username' new_role s u) session =
      (Inr (),
       session\<lparr>users := map (\<lambda>r. if r = user then user\<lparr>role := new_role\<rparr> else r) (users session),
               commits := Suc (commits session)\<rparr>))"
proof (intro conjI impI)
  assume "role current_user \<noteq> ADMIN"
  then show "\<exists>e. request PUT_change_user_role admitted current_user
              (\<lambda>u s. change_user_role get_user_from_username username' new_role s u) session =
            (Inl e, session)"
    by (simp add: request_def require_role_def)
next
  assume a: "role current_user = ADMIN \<and> admitted \<and> pending session = [] \<and>
    distinct (map User.id' (users session)) \<and>
    get_user_from_username username' session = Inr user \<and> user \<in> set (users session)"
  then have "request PUT_change_user_role admitted current_user
        (\<lambda>u s. change_user_role get_user_from_username username' new_role s u) session =
      (Inr (),
       session\<lparr>users := map (\<lambda>r. if User.id' r = User.id' user then user\<lparr>role := new_role\<rparr> else r)
                          (users session),
               commits := Suc (commits session)\<rparr>)"
    using commit_add_user [of session "user\<lparr>role := new_role\<rparr>"]
    by (simp add: request_def require_role_def change_user_role_def committed_def)
  also have "map (\<lambda>r. if User.id' r = User.id' user then user\<lparr>role := new_role\<rparr> else r)
               (users session) =
             map (\<lambda>r. if r = user then user\<lparr>role := new_role\<rparr> else r) (users session)"
    using a by (intro update_row_by_key) simp_all
  finally show "request PUT_change_user_role admitted current_user
        (\<lambda>u s. change_user_role get_user_from_username username' new_role s u) session =
      (Inr (),
       session\<lparr>users := map (\<lambda>r. if r = user then user\<lparr>role := new_role\<rparr> else r) (users session),
               commits := Suc (commits session)\<rparr>)" .
qed

text \<open>
  The instances at the example session: the admin makes \<open>uma\<close> a moderator; the
  moderator's own request is rejected.
\<close>

theorem change_user_role_admin_only_witness:
  "request PUT_change_user_role True example_admin
     (\<lambda>u s. change_user_role example_user_from_username ''uma'' MODERATOR s u) example_session =
   (Inr (),
    example_session
      \<lparr>users := [example_admin, example_moderator, example_user\<lparr>role := MODERATOR\<rparr>],
       commits := 1\<rparr>) \<and>
   request PUT_change_user_role True example_moderator
     (\<lambda>u s. change_user_role example_user_from_username ''uma'' MODERATOR s u) example_session =
   (Inl InsufficientRole, example_session)"
proof -
  have "request PUT_change_user_role True example_admin
     (\<lambda>u s. change_user_role example_user_from_username ''uma'' MODERATOR s u) example_session =
   (Inr (),
    example_session
      \<lparr>users := [example_admin, example_moderator, example_user\<lparr>role := MODERATOR\<rparr>],
       commits := 1\<rparr>)"
    using change_user_role_admin_only
          [where current_user = example_admin and admitted = True and session = example_session
             and get_user_from_username = example_user_from_username and username' = "''uma''"
             and new_role = MODERATOR and user = example_user]
    by (simp add: example_defs)
  moreover have "request PUT_change_user_role True example_moderator
     (\<lambda>u s. change_user_role example_user_from_username ''uma'' MODERATOR s u) example_session =
   (Inl InsufficientRole, example_session)"
    by (simp add: request_def require_role_def example_moderator_def)
  ultimately show ?thesis
    by simp
qed

text \<open>
  C6 as stated fails: a moderator sends a category whose key is stored already; the
  INSERT is turned down, \<open>session.commit()\<close> raises \<open>IntegrityError\<close>, no row is added
  and nothing is committed. The same holds for a super category.
\<close>

theorem create_label_category_duplicate_counterexample:
  "level MODERATOR \<le> level (role example_moderator) \<and>
   pending example_session = [] \<and>
   request PUT_categories_create True example_moderator
     (\<lambda>u s. create_label_category ''cone'' s u) example_session =
   (Inl (CommitRaised IntegrityError) :: unit error + unit, example_session) \<and>
   request PUT_categories_super_create True example_moderator
     (\<lambda>u s. create_label_super_category ''game piece'' s u) example_session =
   (Inl (CommitRaised IntegrityError) :: unit error + unit, example_session)"
  by (simp add: request_def minimum_role_def create_label_category_def
      create_label_super_category_def committed_def commit_add_label_category
      commit_add_label_super_category stored_def example_moderator_def example_session_def
      example_schema_def)

text \<open>
  C6, amended. A request to \<open>PUT /categories/create\<close> or
  \<open>PUT /categories/super/create\<close> by a caller whose role ranks at least as high as
  \<open>MODERATOR\<close>, on a fresh session: when the database accepts the INSERT, the request
  returns normally, the table of the route has the given category appended and its
  earlier rows unchanged, every other table is as it was, and there is one commit.
  When the database turns the INSERT down, its error leaves \<open>session.commit()\<close> and
  the session is as the request found it.
\<close>

theorem create_label_category_adds_row:
  assumes "level MODERATOR \<le> level (role current_user)" and "pending session = []"
  shows "(category_insert (schema session) (stored session) category = None \<longrightarrow>
            request PUT_categories_create admitted current_user
              (\<lambda>u s. create_label_category category s u) session =
            (Inr (),
             session\<lparr>label_categories := label_categories session @ [category],
                     commits := Suc (commits session)\<rparr>)) \<and>
         (\<forall>e. category_insert (schema session) (stored session) category = Some e \<longrightarrow>
              request PUT_categories_create admitted current_user
                (\<lambda>u s. create_label_category category s u) session =
              (Inl (CommitRaised e), session)) \<and>
         (super_category_insert (schema session) (stored session) super_category = None \<longrightarrow>
            request PUT_categories_super_create admitted current_user
              (\<lambda>u s. create_label_super_category super_category s u) session =
            (Inr (),
             session\<lparr>label_super_categories := label_super_categories session @ [super_category],
                     commits := Suc (commits session)\<rparr>)) \<and>
         (\<forall>e. super_category_insert (schema session) (stored session) super_category = Some e \<longrightarrow>
              request PUT_categories_super_create admitted current_user
                (\<lambda>u s. create_label_super_category super_category s u) session =
              (Inl (CommitRaised e), session))"
  using assms
  by (simp add: request_def minimum_role_def create_label_category_def
      create_label_super_category_def committed_def commit_add_label_category
      commit_add_label_super_category)

text \<open>The instances at the example session, one for each of the two routes.\<close>

theorem create_label_category_adds_row_witness:
  "request PUT_categories_create True example_moderator
     (\<lambda>u s. create_label_category ''cube'' s u) example_session =
   (Inr () :: unit error + unit,
    example_session\<lparr>label_categories := [''cone'', ''cube''], commits := 1\<rparr>) \<and>
   request PUT_categories_super_create True example_moderator
     (\<lambda>u s. create_label_super_category ''field'' s u) example_session =
   (Inr () :: unit error + unit,
    example_session\<lparr>label_super_categories := [''game piece'', ''field''], commits := 1\<rparr>)"
  using create_label_category_adds_row
          [where current_user = example_moderator and session = example_session
             and admitted = True and category = "''cube''" and super_category = "''field''"
             and ?'e = unit]
  by (simp add: stored_def example_session_def example_moderator_def example_schema_def)

text \<open>
  C5. The two category routes carry no rate limiter, unlike the five routes declared
  before them: a request the limiter of \<open>PUT /review-image\<close> turns down is served by
  \<open>PUT /categories/create\<close> whatever a limiter would say.
\<close>

theorem categories_not_rate_limited:
  "rate_limiter PUT_categories_create = None \<and>
   rate_limiter PUT_categories_super_create = None \<and>
   rate_limiter PUT_review_image = Some \<lparr>requests_limit = 5, time_window = 5\<rparr> \<and>
   fst (request PUT_categories_create False example_moderator
          (\<lambda>u s. create_label_category ''cube'' s u) example_session) = (Inr () :: unit error + unit) \<and>
   fst (request PUT_review_image False example_moderator
          (\<lambda>u s. update_image_review_status example_id_from_team_number example_new_data s u False)
          example_session) = (Inl RateLimitExceeded :: unit error + unit)"
  by (simp add: request_def minimum_role_def create_label_category_def committed_def
      commit_add_label_category stored_def example_moderator_def example_session_def
      example_schema_def)

end
